theory Spec2Isabelle
  imports Main "HOL-Library.Word"
begin

unbundle bit_operations_syntax

section \<open>CARAT allocation relocation (patching.c)\<close>

text \<open>
  A shallow embedding of \<^verbatim>\<open>src/aspace/carat/port-runtime/c/patching.c\<close>:
  \<^verbatim>\<open>carat_patch_escapes\<close>, \<^verbatim>\<open>carat_update_entry\<close>, \<^verbatim>\<open>handle_thread\<close> and
  \<^verbatim>\<open>nk_carat_move_allocation\<close>. Addresses and pointer-sized values are 64-bit words
  (\<^verbatim>\<open>uintptr_t\<close>, \<^verbatim>\<open>uint64_t\<close>, \<^verbatim>\<open>void*\<close> on x86-64); memory is byte addressed.
\<close>

subsection \<open>Memory\<close>

type_synonym addr = "64 word"
type_synonym memory = "addr \<Rightarrow> 8 word"

text \<open>
  \<^verbatim>\<open>*escape\<close> read through a \<^verbatim>\<open>void**\<close>: an 8-byte little-endian load (x86-64).
\<close>

definition byte_at :: "memory \<Rightarrow> addr \<Rightarrow> nat \<Rightarrow> 64 word" where
  "byte_at m a i = push_bit (8 * i) (ucast (m (a + of_nat i)))"

definition read64 :: "memory \<Rightarrow> addr \<Rightarrow> 64 word" where
  "read64 m a =
     byte_at m a 0 OR byte_at m a 1 OR byte_at m a 2 OR byte_at m a 3 OR
     byte_at m a 4 OR byte_at m a 5 OR byte_at m a 6 OR byte_at m a 7"

text \<open>
  \<^verbatim>\<open>*escape = v\<close>: an 8-byte little-endian store; the bytes at \<open>a\<close> .. \<open>a + 7\<close>
  (addresses wrap at \<open>2^64\<close>) are replaced, every other byte is kept.
\<close>

definition write64 :: "memory \<Rightarrow> addr \<Rightarrow> 64 word \<Rightarrow> memory" where
  "write64 m a v =
     (\<lambda>x. if x - a < 8 then ucast (drop_bit (8 * unat (x - a)) v) else m x)"

text \<open>
  \<^verbatim>\<open>memmove(dest, src, n)\<close>: the \<open>n\<close> bytes at \<open>dest\<close> become the bytes that were at
  \<open>src\<close> before the call, whether or not the two ranges overlap.
\<close>

definition memmove :: "addr \<Rightarrow> addr \<Rightarrow> 64 word \<Rightarrow> memory \<Rightarrow> memory" where
  "memmove dest src n m = (\<lambda>x. if x - dest < n then m (src + (x - dest)) else m x)"

text \<open>Two pointer-sized slots share no byte.\<close>

definition slots_apart :: "addr \<Rightarrow> addr \<Rightarrow> bool" where
  "slots_apart a b \<longleftrightarrow> 8 \<le> b - a \<and> 8 \<le> a - b"


subsection \<open>Allocation entries and the allocation map\<close>

text \<open>
  \<^verbatim>\<open>allocEntry\<close>: the fields read by this file are \<^verbatim>\<open>pointer\<close>, \<^verbatim>\<open>length\<close>
  (here \<open>alloc_length\<close>) and \<^verbatim>\<open>allocToEscapeMap\<close>, the skip list of escape addresses,
  kept as the list of its keys in the order \<^verbatim>\<open>nk_slist_foreach\<close> visits them.
  The tracking records themselves are kept outside the byte memory.
\<close>

record allocEntry =
  pointer :: addr
  alloc_length :: "64 word"
  allocToEscapeMap :: "addr list"

text \<open>
  Modelled from the spec: \<^verbatim>\<open>doesItAlias\<close> is declared in a header that is not among
  the sources. Section 4.1: given a candidate address \<open>p\<close>, a base \<open>b\<close> and a
  length \<open>L\<close>, decide \<open>b \<le> p < b + L\<close> on unsigned 64-bit addresses; if so the result is
  the offset \<open>p - b\<close>, otherwise a negative sentinel. The result is an \<^verbatim>\<open>int64_t\<close>:
  a 64-bit word read as two's complement by the caller.
\<close>

definition doesItAlias :: "addr \<Rightarrow> 64 word \<Rightarrow> 64 word \<Rightarrow> 64 word" where
  "doesItAlias allocAddr len escapeVal =
     (if allocAddr \<le> escapeVal \<and> escapeVal < allocAddr + len
      then escapeVal - allocAddr else - 1)"

text \<open>The body of the \<^verbatim>\<open>nk_slist_foreach\<close> loop of \<^verbatim>\<open>carat_patch_escapes\<close>.\<close>

definition patch_escape :: "allocEntry \<Rightarrow> addr \<Rightarrow> memory \<Rightarrow> addr \<Rightarrow> memory" where
  "patch_escape entry allocationTarget m escape =
     (let offset = doesItAlias (pointer entry) (alloc_length entry) (read64 m escape)
      in if word_sle 0 offset
         then write64 m escape (allocationTarget + offset)
         else m)"

fun patch_loop :: "allocEntry \<Rightarrow> addr \<Rightarrow> addr list \<Rightarrow> memory \<Rightarrow> memory" where
  "patch_loop entry allocationTarget [] m = m"
| "patch_loop entry allocationTarget (val # rest) m =
     patch_loop entry allocationTarget rest (patch_escape entry allocationTarget m val)"

definition carat_patch_escapes :: "allocEntry \<Rightarrow> addr \<Rightarrow> memory \<Rightarrow> int \<times> memory" where
  "carat_patch_escapes entry allocationTarget m =
     (0, patch_loop entry allocationTarget (allocToEscapeMap entry) m)"

subsection \<open>Saved registers and threads\<close>

text \<open>
  Modelled from the spec: \<^verbatim>\<open>struct nk_regs\<close> is declared in a header that is not
  among the sources. It is the saved register snapshot of a suspended thread: the fifteen general-purpose
  registers that \<^verbatim>\<open>handle_thread\<close> names, and the instruction and stack pointer.
  \<^verbatim>\<open>handle_thread\<close> finds the snapshot at \<^verbatim>\<open>t->rsp - 128\<close>; here each thread carries
  its snapshot as a field.
\<close>

record nk_regs =
  r15 :: "64 word"
  r14 :: "64 word"
  r13 :: "64 word"
  r12 :: "64 word"
  r11 :: "64 word"
  r10 :: "64 word"
  r9 :: "64 word"
  r8 :: "64 word"
  rbp :: "64 word"
  rdi :: "64 word"
  rsi :: "64 word"
  rdx :: "64 word"
  rcx :: "64 word"
  rbx :: "64 word"
  rax :: "64 word"
  rip :: "64 word"
  rsp :: "64 word"

record nk_thread =
  thread_rsp :: addr
  regs :: nk_regs

text \<open>\<^verbatim>\<open>struct move_alloc_state\<close>, initialised in \<^verbatim>\<open>nk_carat_move_allocation\<close> as
  \<^verbatim>\<open>{allocationToMove, allocationTarget, entry->length, 0}\<close>; its field \<^verbatim>\<open>length\<close> is
  \<open>move_length\<close> here.\<close>

record move_alloc_state =
  allocationToMove :: addr
  allocationTarget :: addr
  move_length :: "64 word"
  failed :: int

text \<open>
  The macro \<^verbatim>\<open>HANDLE(reg)\<close>, as the new value of the register: the comparison and the
  two additions are on \<^verbatim>\<open>uint64_t\<close> and wrap. The macro reads the fields through the
  untyped parameter \<^verbatim>\<open>state\<close>; they are the fields of the move state it points to.
\<close>

definition HANDLE :: "move_alloc_state \<Rightarrow> 64 word \<Rightarrow> 64 word" where
  "HANDLE state reg =
     (if reg \<ge> allocationToMove state \<and> reg < allocationToMove state + move_length state
      then (let offset = reg - allocationToMove state;
                newAddr = allocationTarget state + offset
            in newAddr)
      else reg)"

text \<open>
  \<^verbatim>\<open>handle_thread\<close>: \<^verbatim>\<open>HANDLE(r15)\<close> first, \<^verbatim>\<open>HANDLE(rax)\<close> last; \<^verbatim>\<open>rsp\<close> and \<^verbatim>\<open>rip\<close>
  are left for later by the source. The state is passed through: no statement of the
  function assigns to it.
\<close>

definition handle_thread :: "nk_thread \<Rightarrow> move_alloc_state \<Rightarrow> nk_thread \<times> move_alloc_state" where
  "handle_thread t state =
     (regs_update
        (rax_update (HANDLE state) \<circ> rbx_update (HANDLE state) \<circ> rcx_update (HANDLE state) \<circ>
         rdx_update (HANDLE state) \<circ> rsi_update (HANDLE state) \<circ> rdi_update (HANDLE state) \<circ>
         rbp_update (HANDLE state) \<circ> r8_update (HANDLE state) \<circ> r9_update (HANDLE state) \<circ>
         r10_update (HANDLE state) \<circ> r11_update (HANDLE state) \<circ> r12_update (HANDLE state) \<circ>
         r13_update (HANDLE state) \<circ> r14_update (HANDLE state) \<circ> r15_update (HANDLE state)) t,
      state)"

subsection \<open>The kernel state and the scheduler\<close>

datatype sched_event = StopWorld | StartWorld

text \<open>
  What \<^verbatim>\<open>nk_carat_move_allocation\<close> reads and writes: the byte memory, the global
  \<^verbatim>\<open>allocationMap\<close> (a map from base address to entry), the saved snapshots of the
  live threads, and the scheduler: whether the next request to stop the world will be
  refused, whether the world is stopped, and the trace of stop and start calls.
\<close>

record kstate =
  mem :: memory
  allocationMap :: "addr \<rightharpoonup> allocEntry"
  threads :: "nk_thread list"
  stop_world_fails :: bool
  world_stopped :: bool
  sched_trace :: "sched_event list"

text \<open>
  Modelled from the spec: \<^verbatim>\<open>nk_sched_stop_world\<close> belongs to the scheduler, which is not
  among the sources. Section 6: \<open>stopWorld\<close> reports whether the world could be stopped;
  the C function returns non-zero when it could not, and then nothing has changed.
\<close>

definition nk_sched_stop_world :: "kstate \<Rightarrow> int \<times> kstate" where
  "nk_sched_stop_world k =
     (if stop_world_fails k then (- 1, k)
      else (0, k\<lparr>world_stopped := True, sched_trace := sched_trace k @ [StopWorld]\<rparr>))"

text \<open>
  Modelled from the spec: \<^verbatim>\<open>nk_sched_start_world\<close> belongs to the scheduler, which is
  not among the sources. Section 6: \<open>startWorld\<close> always succeeds.
\<close>

definition nk_sched_start_world :: "kstate \<Rightarrow> kstate" where
  "nk_sched_start_world k =
     k\<lparr>world_stopped := False, sched_trace := sched_trace k @ [StartWorld]\<rparr>"

text \<open>
  Modelled from the spec: \<^verbatim>\<open>nk_sched_map_threads\<close> belongs to the scheduler, which is
  not among the sources. Section 6: \<open>forEachThread\<close> invokes the callback once per live
  thread, passing the shared state; the source asks for the threads of all CPUs.
\<close>

fun nk_sched_map_threads ::
  "(nk_thread \<Rightarrow> 's \<Rightarrow> nk_thread \<times> 's) \<Rightarrow> nk_thread list \<Rightarrow> 's \<Rightarrow> nk_thread list \<times> 's" where
  "nk_sched_map_threads func [] state = ([], state)"
| "nk_sched_map_threads func (t # ts) state =
     (case func t state of (t', state') \<Rightarrow>
        (case nk_sched_map_threads func ts state' of (ts', state'') \<Rightarrow> (t' # ts', state'')))"

text \<open>
  Modelled from the spec: \<^verbatim>\<open>findAllocEntry\<close> is not among the sources. Section 3: the
  directory maps a base address to its entry, and this core looks an entry up by its
  exact base.
\<close>

definition findAllocEntry :: "kstate \<Rightarrow> addr \<Rightarrow> allocEntry option" where
  "findAllocEntry k a = allocationMap k a"

text \<open>
  Modelled from the spec: the constructor \<^verbatim>\<open>allocEntry(pointer, length)\<close> is not among
  the sources. Section 3: a record with the given base and length; its escape set starts
  empty and is filled by the instrumentation.
\<close>

definition new_allocEntry :: "addr \<Rightarrow> 64 word \<Rightarrow> allocEntry" where
  "new_allocEntry p len = \<lparr>pointer = p, alloc_length = len, allocToEscapeMap = []\<rparr>"

text \<open>
  Modelled from the spec: \<^verbatim>\<open>nk_slist_add\<close> on \<^verbatim>\<open>allocationMap\<close> is not among the
  sources. Section 4.4, step 6: insert a new entry keyed at the given base.
\<close>

definition nk_slist_add :: "addr \<Rightarrow> allocEntry \<Rightarrow> kstate \<Rightarrow> kstate" where
  "nk_slist_add key e k = k\<lparr>allocationMap := (allocationMap k)(key \<mapsto> e)\<rparr>"

text \<open>
  Modelled from the spec: \<^verbatim>\<open>nk_slist_remove\<close> on \<^verbatim>\<open>allocationMap\<close> is not among the
  sources. Section 4.4, step 6: remove the directory entry keyed at the given base.
\<close>

definition nk_slist_remove :: "addr \<Rightarrow> kstate \<Rightarrow> kstate" where
  "nk_slist_remove key k = k\<lparr>allocationMap := (allocationMap k)(key := None)\<rparr>"

text \<open>
  \<^verbatim>\<open>carat_update_entry\<close>: build the new entry, hand it the old escape list, add it under
  the target address, then remove the key \<^verbatim>\<open>entry->pointer\<close>.
\<close>

definition carat_update_entry :: "allocEntry \<Rightarrow> addr \<Rightarrow> kstate \<Rightarrow> int \<times> kstate" where
  "carat_update_entry entry allocationTarget' k =
     (let newEntry = new_allocEntry allocationTarget' (alloc_length entry);
          newEntry = newEntry\<lparr>allocToEscapeMap := allocToEscapeMap entry\<rparr>;
          k = nk_slist_add allocationTarget' newEntry k;
          k = nk_slist_remove (pointer entry) k
      in (0, k))"

subsection \<open>The relocation\<close>

text \<open>The two exits of \<^verbatim>\<open>nk_carat_move_allocation\<close>.\<close>

definition out_good :: "kstate \<Rightarrow> int \<times> kstate" where
  "out_good k = (0, nk_sched_start_world k)"

definition out_bad :: "kstate \<Rightarrow> int \<times> kstate" where
  "out_bad k = (- 1, nk_sched_start_world k)"

text \<open>
  The body of \<^verbatim>\<open>nk_carat_move_allocation\<close>, with the escape pass and the thread
  callback as parameters, so that its control flow can be examined with passes that
  fail. Note the argument order of the source's \<^verbatim>\<open>memmove(allocationToMove,
  allocationTarget, entry->length)\<close>: the first argument of \<^verbatim>\<open>memmove\<close> is the
  destination.
\<close>

definition move_allocation_with ::
  "(allocEntry \<Rightarrow> addr \<Rightarrow> memory \<Rightarrow> int \<times> memory) \<Rightarrow>
   (nk_thread \<Rightarrow> move_alloc_state \<Rightarrow> nk_thread \<times> move_alloc_state) \<Rightarrow>
   addr \<Rightarrow> addr \<Rightarrow> kstate \<Rightarrow> int \<times> kstate" where
  "move_allocation_with patch_escapes thread_func allocationToMove' allocationTarget' k0 =
     (case nk_sched_stop_world k0 of (rc, k1) \<Rightarrow>
      if rc \<noteq> 0 then (- 1, k1)
      else
        (case findAllocEntry k1 allocationToMove' of
           None \<Rightarrow> out_bad k1
         | Some entry \<Rightarrow>
            (case patch_escapes entry allocationTarget' (mem k1) of (pr, m2) \<Rightarrow>
             let k2 = k1\<lparr>mem := m2\<rparr> in
             if pr = 1 then out_bad k2
             else
               let state = \<lparr>allocationToMove = allocationToMove',
                            allocationTarget = allocationTarget',
                            move_length = alloc_length entry, failed = 0\<rparr>
               in (case nk_sched_map_threads thread_func (threads k2) state of
                     (ts, state') \<Rightarrow>
                      let k3 = k2\<lparr>threads := ts\<rparr> in
                      if failed state' \<noteq> 0 then out_bad k3
                      else
                        let k4 = k3\<lparr>mem := memmove allocationToMove' allocationTarget'
                                              (alloc_length entry) (mem k3)\<rparr>;
                            k5 = snd (carat_update_entry entry allocationTarget' k4)
                        in out_good k5))))"

definition nk_carat_move_allocation :: "addr \<Rightarrow> addr \<Rightarrow> kstate \<Rightarrow> int \<times> kstate" where
  "nk_carat_move_allocation = move_allocation_with carat_patch_escapes handle_thread"

subsection \<open>Notions used to state the properties\<close>

text \<open>
  The address \<open>p\<close> lies in the byte range \<open>[base, base + len)\<close>, read on the natural
  numbers (no wrap-around).
\<close>

definition in_allocation :: "addr \<Rightarrow> 64 word \<Rightarrow> 64 word \<Rightarrow> bool" where
  "in_allocation base len p \<longleftrightarrow> unat base \<le> unat p \<and> unat p < unat base + unat len"

text \<open>The value a pointer-sized cell is expected to hold after a relocation.\<close>

definition relocated :: "addr \<Rightarrow> 64 word \<Rightarrow> addr \<Rightarrow> 64 word \<Rightarrow> 64 word" where
  "relocated base len target v =
     (if in_allocation base len v then target + (v - base) else v)"

text \<open>The escape slots of a list are pairwise disjoint 8-byte cells.\<close>

fun escapes_apart :: "addr list \<Rightarrow> bool" where
  "escapes_apart [] \<longleftrightarrow> True"
| "escapes_apart (e # es) \<longleftrightarrow> list_all (slots_apart e) es \<and> escapes_apart es"

subsection \<open>A concrete scenario\<close>

text \<open>
  The scenario of section 8 of the specification: an entry at base \<open>0x1000\<close> of length
  64, escape slot A at \<open>0x2000\<close> holding \<open>0x1010\<close>, escape slot B at \<open>0x2008\<close> holding
  \<open>0x5000\<close>. The 64 bytes of the allocation are \<open>0xAB\<close>, the rest of the memory is
  zero, and one thread is suspended with registers inside and outside the range.
\<close>

definition scenario_entry :: allocEntry where
  "scenario_entry =
     \<lparr>pointer = 0x1000, alloc_length = 64, allocToEscapeMap = [0x2000, 0x2008]\<rparr>"

definition scenario_mem :: memory where
  "scenario_mem =
     write64 (write64 (\<lambda>x. if x - 0x1000 < 64 then 0xAB else 0) 0x2000 0x1010)
       0x2008 0x5000"

definition scenario_regs :: nk_regs where
  "scenario_regs =
     \<lparr>r15 = 0x1000, r14 = 0x103F, r13 = 0x1040, r12 = 0xFFF, r11 = 0x1010, r10 = 0,
      r9 = 0x5000, r8 = 0x1001, rbp = 0x1020, rdi = 0x2000, rsi = 0x1008, rdx = 7,
      rcx = 0x1030, rbx = 0x9000, rax = 0x1018, rip = 0x1004, rsp = 0x1028\<rparr>"

definition scenario_state :: kstate where
  "scenario_state =
     \<lparr>mem = scenario_mem,
      allocationMap = [0x1000 \<mapsto> scenario_entry],
      threads = [\<lparr>thread_rsp = 0x7000, regs = scenario_regs\<rparr>],
      stop_world_fails = False,
      world_stopped = False,
      sched_trace = []\<rparr>"

text \<open>A thread callback that reports failure, as a mock of a failing register pass.\<close>

definition failing_thread :: "nk_thread \<Rightarrow> move_alloc_state \<Rightarrow> nk_thread \<times> move_alloc_state" where
  "failing_thread t state = (t, state\<lparr>failed := 1\<rparr>)"

section \<open>Properties\<close>

subsection \<open>Loads and stores\<close>

lemma byte_at_write64_same:
  "i < 8 \<Longrightarrow>
   byte_at (write64 m a v) a i =
   push_bit (8 * i) (ucast (ucast (drop_bit (8 * i) v) :: 8 word))"
  by (simp add: byte_at_def write64_def word_less_nat_alt unat_of_nat)

lemma bit_byte_at_write64_same:
  "i < 8 \<Longrightarrow>
   bit (byte_at (write64 m a v) a i) n \<longleftrightarrow> 8 * i \<le> n \<and> n < 8 * i + 8 \<and> n < 64 \<and> bit v n"
  by (auto simp add: byte_at_write64_same bit_simps)

lemma read64_write64_same: "read64 (write64 m a v) a = v"
proof (rule bit_word_eqI)
  fix n :: nat
  assume n: "n < LENGTH(64)"
  have "n < 8 \<or> (8 \<le> n \<and> n < 16) \<or> (16 \<le> n \<and> n < 24) \<or> (24 \<le> n \<and> n < 32) \<or>
        (32 \<le> n \<and> n < 40) \<or> (40 \<le> n \<and> n < 48) \<or> (48 \<le> n \<and> n < 56) \<or>
        (56 \<le> n \<and> n < 64)"
    using n by simp linarith
  then show "bit (read64 (write64 m a v) a) n = bit v n"
    unfolding read64_def bit_or_iff
    by (elim disjE) (simp_all add: bit_byte_at_write64_same)
qed

lemma slots_apart_sym: "slots_apart a b \<longleftrightarrow> slots_apart b a"
  by (auto simp add: slots_apart_def)

lemma slots_apart_offset:
  assumes "slots_apart a b" "i < 8"
  shows "\<not> (b + of_nat i - a < (8 :: 64 word))"
proof
  assume lt: "b + of_nat i - a < (8 :: 64 word)"
  define j where "j = unat (b + of_nat i - a)"
  have j8: "j < 8" using lt by (simp add: j_def word_less_nat_alt)
  have eq: "b + of_nat i - a = of_nat j" by (simp add: j_def)
  have ap: "8 \<le> unat (b - a)" "8 \<le> unat (a - b)"
    using assms(1) by (simp_all add: slots_apart_def word_le_nat_alt)
  show False
  proof (cases "i \<le> j")
    case True
    have "b - a = of_nat j - of_nat i" using eq by (simp add: algebra_simps)
    also have "\<dots> = of_nat (j - i)" using True by simp
    finally have "unat (b - a) = j - i" using j8 by (simp add: unat_of_nat)
    with ap(1) j8 show False by linarith
  next
    case False
    have "a - b = of_nat i - of_nat j" using eq by (simp add: algebra_simps)
    also have "\<dots> = of_nat (i - j)" using False by simp
    finally have "unat (a - b) = i - j" using assms(2) by (simp add: unat_of_nat)
    with ap(2) assms(2) show False by linarith
  qed
qed

lemma byte_at_write64_apart:
  assumes "slots_apart a b" "i < 8"
  shows "byte_at (write64 m a v) b i = byte_at m b i"
  using slots_apart_offset [OF assms] by (simp add: byte_at_def write64_def)

lemma read64_write64_apart:
  assumes "slots_apart a b"
  shows "read64 (write64 m a v) b = read64 m b"
  unfolding read64_def by (simp add: byte_at_write64_apart [OF assms])

subsection \<open>The aliasing test\<close>

lemma range_test_no_wrap:
  assumes "unat base + unat len < 2 ^ 64"
  shows "(base \<le> p \<and> p < base + len) \<longleftrightarrow> in_allocation base len (p :: 64 word)"
proof -
  have "unat (base + len) = unat base + unat len"
    using assms by (simp add: unat_add_lem [THEN iffD1])
  then show ?thesis
    by (simp add: in_allocation_def word_le_nat_alt word_less_nat_alt)
qed

lemma HANDLE_relocated:
  assumes "unat (allocationToMove st) + unat (move_length st) < 2 ^ 64"
  shows "HANDLE st v = relocated (allocationToMove st) (move_length st) (allocationTarget st) v"
  by (simp add: HANDLE_def relocated_def range_test_no_wrap [OF assms])

lemma offset_nonneg:
  assumes "in_allocation base len p" "unat len \<le> 2 ^ 63"
  shows "word_sle 0 (p - base)"
proof -
  have "unat (p - base) = unat p - unat base"
    using assms(1) by (simp add: in_allocation_def unat_sub word_le_nat_alt)
  moreover have "unat p - unat base < 2 ^ 63"
    using assms unfolding in_allocation_def by linarith
  ultimately have "unat (p - base) < 2 ^ 63" by simp
  then have "int (unat (p - base)) < int (2 ^ 63)"
    by (simp only: of_nat_less_iff)
  then have "uint (p - base) < 2 ^ 63"
    by simp
  then have "signed_take_bit 63 (uint (p - base)) = uint (p - base)"
    by (intro signed_take_bit_int_eq_self) (simp_all add: order_trans [of _ 0])
  then have "sint (p - base) = uint (p - base)"
    by (simp add: sint_uint)
  then show ?thesis by (simp add: word_sle_eq)
qed

subsection \<open>The escape patch pass\<close>

lemma patch_escape_read:
  assumes "unat (pointer entry) + unat (alloc_length entry) < 2 ^ 64"
    and "unat (alloc_length entry) \<le> 2 ^ 63"
  shows "read64 (patch_escape entry t m e) e =
         relocated (pointer entry) (alloc_length entry) t (read64 m e)"
  using offset_nonneg [OF _ assms(2), of "pointer entry" "read64 m e"]
  by (simp add: patch_escape_def doesItAlias_def range_test_no_wrap [OF assms(1)]
      relocated_def read64_write64_same word_sle_eq)

lemma patch_escape_other:
  assumes "slots_apart x e"
  shows "read64 (patch_escape entry t m x) e = read64 m e"
  by (simp add: patch_escape_def Let_def read64_write64_apart [OF assms])

lemma patch_loop_other:
  "list_all (\<lambda>x. slots_apart x e) es \<Longrightarrow> read64 (patch_loop entry t es m) e = read64 m e"
  by (induction es arbitrary: m) (simp_all add: patch_escape_other)

lemma patch_loop_read:
  assumes "unat (pointer entry) + unat (alloc_length entry) < 2 ^ 64"
    and "unat (alloc_length entry) \<le> 2 ^ 63"
  shows "escapes_apart es \<Longrightarrow> e \<in> set es \<Longrightarrow>
         read64 (patch_loop entry t es m) e =
         relocated (pointer entry) (alloc_length entry) t (read64 m e)"
proof (induction es arbitrary: m)
  case Nil
  then show ?case by simp
next
  case (Cons x xs)
  show ?case
  proof (cases "e = x")
    case True
    have "list_all (\<lambda>y. slots_apart y e) xs"
      using Cons.prems(1) True by (simp add: list_all_iff slots_apart_sym)
    then show ?thesis
      using True by (simp add: patch_loop_other patch_escape_read [OF assms])
  next
    case False
    then have mem: "e \<in> set xs" using Cons.prems(2) by simp
    then have "slots_apart x e" using Cons.prems(1) by (simp add: list_all_iff)
    then have "read64 (patch_escape entry t m x) e = read64 m e"
      by (rule patch_escape_other)
    moreover have "escapes_apart xs" using Cons.prems(1) by simp
    ultimately show ?thesis
      using Cons.IH [OF _ mem, of "patch_escape entry t m x"] by simp
  qed
qed

lemma scenario_reads:
  "read64 scenario_mem 0x2000 = 0x1010" "read64 scenario_mem 0x2008 = 0x5000"
  by (simp_all add: scenario_mem_def read64_def byte_at_def write64_def)

text \<open>
  Claim C2. After the escape patch pass over an entry with target base \<open>t\<close>, every
  escape slot \<open>e\<close> of the entry whose pointer-sized value lay in
  \<open>[base, base + length)\<close> holds \<open>t + (old value - base)\<close>, and every other escape
  slot holds its old value. The entry is a well-formed allocation (its range does not
  wrap around the 64-bit address space and its length fits a signed offset) and its
  escape slots are pairwise disjoint 8-byte cells.
\<close>

theorem carat_patch_escapes_correct:
  assumes "unat (pointer entry) + unat (alloc_length entry) < 2 ^ 64"
    and "unat (alloc_length entry) \<le> 2 ^ 63"
    and "escapes_apart (allocToEscapeMap entry)"
    and "e \<in> set (allocToEscapeMap entry)"
  shows "read64 (snd (carat_patch_escapes entry t m)) e =
           (if in_allocation (pointer entry) (alloc_length entry) (read64 m e)
            then t + (read64 m e - pointer entry)
            else read64 m e)"
  using patch_loop_read [OF assms(1,2,3,4)]
  by (simp add: carat_patch_escapes_def relocated_def)

theorem carat_patch_escapes_correct_witness:
  "escapes_apart (allocToEscapeMap scenario_entry) \<and>
   0x2000 \<in> set (allocToEscapeMap scenario_entry) \<and>
   read64 scenario_mem 0x2000 = 0x1010 \<and>
   read64 (snd (carat_patch_escapes scenario_entry 0x9000 scenario_mem)) 0x2000 = 0x9010 \<and>
   read64 scenario_mem 0x2008 = 0x5000 \<and>
   read64 (snd (carat_patch_escapes scenario_entry 0x9000 scenario_mem)) 0x2008 = 0x5000"
  using carat_patch_escapes_correct
      [where entry = scenario_entry and e = "0x2000" and t = "0x9000" and m = scenario_mem]
    carat_patch_escapes_correct
      [where entry = scenario_entry and e = "0x2008" and t = "0x9000" and m = scenario_mem]
  by (simp add: scenario_reads scenario_entry_def slots_apart_def in_allocation_def)

subsection \<open>The thread register pass\<close>

lemma map_threads_handle_thread:
  "nk_sched_map_threads handle_thread ts st = (map (\<lambda>t. fst (handle_thread t st)) ts, st)"
  by (induction ts) (simp_all add: handle_thread_def)

text \<open>
  Claim C3. After the thread pass, for every thread and every tracked register
  (r15, r14, r13, r12, r11, r10, r9, r8, rbp, rdi, rsi, rdx, rcx, rbx, rax): a value
  that lay in \<open>[source, source + length)\<close> has become \<open>target + (value - source)\<close>, any
  other value is unchanged; rsp and rip are unchanged. The range
  \<open>[source, source + length)\<close> does not wrap around the address space.
\<close>

theorem thread_pass_registers:
  assumes "unat (allocationToMove st) + unat (move_length st) < 2 ^ 64"
    and "nk_sched_map_threads handle_thread ts st = (ts', st')"
    and "i < length ts"
  shows "length ts' = length ts \<and>
         (let old = regs (ts ! i); new = regs (ts' ! i);
              f = relocated (allocationToMove st) (move_length st) (allocationTarget st)
          in r15 new = f (r15 old) \<and> r14 new = f (r14 old) \<and> r13 new = f (r13 old) \<and>
             r12 new = f (r12 old) \<and> r11 new = f (r11 old) \<and> r10 new = f (r10 old) \<and>
             r9 new = f (r9 old) \<and> r8 new = f (r8 old) \<and> rbp new = f (rbp old) \<and>
             rdi new = f (rdi old) \<and> rsi new = f (rsi old) \<and> rdx new = f (rdx old) \<and>
             rcx new = f (rcx old) \<and> rbx new = f (rbx old) \<and> rax new = f (rax old) \<and>
             rsp new = rsp old \<and> rip new = rip old)"
proof -
  have ts': "ts' = map (\<lambda>t. fst (handle_thread t st)) ts"
    using assms(2) by (auto simp add: map_threads_handle_thread)
  show ?thesis
    using assms(3)
    by (simp add: ts' Let_def handle_thread_def HANDLE_relocated [OF assms(1)])
qed

theorem thread_pass_registers_witness:
  "regs (fst (nk_sched_map_threads handle_thread (threads scenario_state)
       \<lparr>allocationToMove = 0x1000, allocationTarget = 0x9000,
        move_length = 64, failed = 0\<rparr>) ! 0) =
     \<lparr>r15 = 0x9000, r14 = 0x903F, r13 = 0x1040, r12 = 0xFFF, r11 = 0x9010, r10 = 0,
      r9 = 0x5000, r8 = 0x9001, rbp = 0x9020, rdi = 0x2000, rsi = 0x9008, rdx = 7,
      rcx = 0x9030, rbx = 0x9000, rax = 0x9018, rip = 0x1004, rsp = 0x1028\<rparr>"
  using thread_pass_registers
      [where st = "\<lparr>allocationToMove = 0x1000, allocationTarget = 0x9000,
                     move_length = 64, failed = 0\<rparr>"
         and ts = "threads scenario_state" and i = 0
         and ts' = "fst (nk_sched_map_threads handle_thread (threads scenario_state)
                      \<lparr>allocationToMove = 0x1000, allocationTarget = 0x9000,
                       move_length = 64, failed = 0\<rparr>)"
         and st' = "snd (nk_sched_map_threads handle_thread (threads scenario_state)
                      \<lparr>allocationToMove = 0x1000, allocationTarget = 0x9000,
                       move_length = 64, failed = 0\<rparr>)"]
  by (cases "regs (fst (nk_sched_map_threads handle_thread (threads scenario_state)
       \<lparr>allocationToMove = 0x1000, allocationTarget = 0x9000,
        move_length = 64, failed = 0\<rparr>) ! 0)")
     (simp add: scenario_state_def scenario_regs_def relocated_def in_allocation_def Let_def)

subsection \<open>The paths of the relocation\<close>

lemmas move_defs =
  move_allocation_with_def nk_sched_stop_world_def nk_sched_start_world_def
  findAllocEntry_def out_good_def out_bad_def carat_update_entry_def
  nk_slist_add_def nk_slist_remove_def new_allocEntry_def

lemma move_stop_refused:
  "stop_world_fails k \<Longrightarrow> move_allocation_with p h source target k = (- 1, k)"
  by (simp add: move_defs)

lemma move_not_found:
  "\<not> stop_world_fails k \<Longrightarrow> allocationMap k source = None \<Longrightarrow>
   move_allocation_with p h source target k =
     (- 1, k\<lparr>world_stopped := False, sched_trace := sched_trace k @ [StopWorld, StartWorld]\<rparr>)"
  by (simp add: move_defs)

lemma move_patch_failed:
  "\<not> stop_world_fails k \<Longrightarrow> allocationMap k source = Some entry \<Longrightarrow>
   p entry target (mem k) = (1, m2) \<Longrightarrow>
   move_allocation_with p h source target k =
     (- 1, k\<lparr>mem := m2, world_stopped := False,
              sched_trace := sched_trace k @ [StopWorld, StartWorld]\<rparr>)"
  by (simp add: move_defs)

lemma move_threads_failed:
  "\<not> stop_world_fails k \<Longrightarrow> allocationMap k source = Some entry \<Longrightarrow>
   p entry target (mem k) = (pr, m2) \<Longrightarrow> pr \<noteq> 1 \<Longrightarrow>
   nk_sched_map_threads h (threads k)
     \<lparr>allocationToMove = source, allocationTarget = target,
      move_length = alloc_length entry, failed = 0\<rparr> = (ts, state') \<Longrightarrow>
   failed state' \<noteq> 0 \<Longrightarrow>
   move_allocation_with p h source target k =
     (- 1, k\<lparr>mem := m2, threads := ts, world_stopped := False,
              sched_trace := sched_trace k @ [StopWorld, StartWorld]\<rparr>)"
  by (simp add: move_defs)

lemma move_completed:
  "\<not> stop_world_fails k \<Longrightarrow> allocationMap k source = Some entry \<Longrightarrow>
   p entry target (mem k) = (pr, m2) \<Longrightarrow> pr \<noteq> 1 \<Longrightarrow>
   nk_sched_map_threads h (threads k)
     \<lparr>allocationToMove = source, allocationTarget = target,
      move_length = alloc_length entry, failed = 0\<rparr> = (ts, state') \<Longrightarrow>
   failed state' = 0 \<Longrightarrow>
   move_allocation_with p h source target k =
     (0, k\<lparr>mem := memmove source target (alloc_length entry) m2,
            allocationMap := ((allocationMap k)(target \<mapsto>
                 \<lparr>pointer = target, alloc_length = alloc_length entry,
                  allocToEscapeMap = allocToEscapeMap entry\<rparr>))
                               (pointer entry := None),
            threads := ts, world_stopped := False,
            sched_trace := sched_trace k @ [StopWorld, StartWorld]\<rparr>)"
  by (simp add: move_defs)

lemma nk_carat_move_allocation_found:
  assumes "\<not> stop_world_fails k" "allocationMap k source = Some entry"
  shows "nk_carat_move_allocation source target k =
     (0, k\<lparr>mem := memmove source target (alloc_length entry)
                    (patch_loop entry target (allocToEscapeMap entry) (mem k)),
            allocationMap := ((allocationMap k)(target \<mapsto>
                 \<lparr>pointer = target, alloc_length = alloc_length entry,
                  allocToEscapeMap = allocToEscapeMap entry\<rparr>))
                               (pointer entry := None),
            threads := map (\<lambda>t. fst (handle_thread t
                \<lparr>allocationToMove = source, allocationTarget = target,
                 move_length = alloc_length entry, failed = 0\<rparr>)) (threads k),
            world_stopped := False,
            sched_trace := sched_trace k @ [StopWorld, StartWorld]\<rparr>)"
  unfolding nk_carat_move_allocation_def
  by (rule move_completed [where p = carat_patch_escapes and h = handle_thread and pr = 0 and state' = "\<lparr>allocationToMove = source, allocationTarget = target,
                 move_length = alloc_length entry, failed = 0\<rparr>", OF assms])
     (simp_all add: carat_patch_escapes_def map_threads_handle_thread)


lemma move_cases:
  assumes "move_allocation_with p h source target k = (r, k')"
  obtains
    (refused) "stop_world_fails k" "r = - 1" "k' = k"
  | (not_found) "\<not> stop_world_fails k" "allocationMap k source = None" "r = - 1"
      "k' = k\<lparr>world_stopped := False, sched_trace := sched_trace k @ [StopWorld, StartWorld]\<rparr>"
  | (patch_failed) entry m2 where "\<not> stop_world_fails k" "allocationMap k source = Some entry"
      "p entry target (mem k) = (1, m2)" "r = - 1"
      "k' = k\<lparr>mem := m2, world_stopped := False,
              sched_trace := sched_trace k @ [StopWorld, StartWorld]\<rparr>"
  | (threads_failed) entry pr m2 ts state' where
      "\<not> stop_world_fails k" "allocationMap k source = Some entry"
      "p entry target (mem k) = (pr, m2)" "pr \<noteq> 1"
      "nk_sched_map_threads h (threads k)
         \<lparr>allocationToMove = source, allocationTarget = target,
          move_length = alloc_length entry, failed = 0\<rparr> = (ts, state')"
      "failed state' \<noteq> 0" "r = - 1"
      "k' = k\<lparr>mem := m2, threads := ts, world_stopped := False,
              sched_trace := sched_trace k @ [StopWorld, StartWorld]\<rparr>"
  | (completed) entry pr m2 ts state' where
      "\<not> stop_world_fails k" "allocationMap k source = Some entry"
      "p entry target (mem k) = (pr, m2)" "pr \<noteq> 1"
      "nk_sched_map_threads h (threads k)
         \<lparr>allocationToMove = source, allocationTarget = target,
          move_length = alloc_length entry, failed = 0\<rparr> = (ts, state')"
      "failed state' = 0" "r = 0"
      "k' = k\<lparr>mem := memmove source target (alloc_length entry) m2,
            allocationMap := ((allocationMap k)(target \<mapsto>
                 \<lparr>pointer = target, alloc_length = alloc_length entry,
                  allocToEscapeMap = allocToEscapeMap entry\<rparr>))
                               (pointer entry := None),
            threads := ts, world_stopped := False,
            sched_trace := sched_trace k @ [StopWorld, StartWorld]\<rparr>"
proof (cases "stop_world_fails k")
  case True
  have "(r, k') = (- 1, k)"
    using assms move_stop_refused [where p = p and h = h and source = source and target = target, OF True] by simp
  then have "r = - 1" "k' = k" by simp_all
  then show ?thesis by (rule refused [OF True])
next
  case run: False
  show ?thesis
  proof (cases "allocationMap k source")
    case None
    have "(r, k') = (- 1, k\<lparr>world_stopped := False,
                              sched_trace := sched_trace k @ [StopWorld, StartWorld]\<rparr>)"
      using assms move_not_found [where p = p and h = h and target = target, OF run None] by simp
    then have "r = - 1"
      "k' = k\<lparr>world_stopped := False, sched_trace := sched_trace k @ [StopWorld, StartWorld]\<rparr>"
      by simp_all
    then show ?thesis by (rule not_found [OF run None])
  next
    case (Some entry)
    obtain pr m2 where pm: "p entry target (mem k) = (pr, m2)" by force
    obtain ts state' where th: "nk_sched_map_threads h (threads k)
         \<lparr>allocationToMove = source, allocationTarget = target,
          move_length = alloc_length entry, failed = 0\<rparr> = (ts, state')" by force
    show ?thesis
    proof (cases "pr = 1")
      case True
      then have pm1: "p entry target (mem k) = (1, m2)" using pm by simp
      have "(r, k') = (- 1, k\<lparr>mem := m2, world_stopped := False,
              sched_trace := sched_trace k @ [StopWorld, StartWorld]\<rparr>)"
        using assms move_patch_failed [where p = p and h = h, OF run Some pm1] by simp
      then have "r = - 1" "k' = k\<lparr>mem := m2, world_stopped := False,
              sched_trace := sched_trace k @ [StopWorld, StartWorld]\<rparr>"
        by simp_all
      then show ?thesis by (rule patch_failed [OF run Some pm1])
    next
      case ok: False
      show ?thesis
      proof (cases "failed state' = 0")
        case True
        have "(r, k') = (0, k\<lparr>mem := memmove source target (alloc_length entry) m2,
            allocationMap := ((allocationMap k)(target \<mapsto>
                 \<lparr>pointer = target, alloc_length = alloc_length entry,
                  allocToEscapeMap = allocToEscapeMap entry\<rparr>))
                               (pointer entry := None),
            threads := ts, world_stopped := False,
            sched_trace := sched_trace k @ [StopWorld, StartWorld]\<rparr>)"
          using assms move_completed [where p = p and h = h, OF run Some pm ok th True] by simp
        then have "r = 0" "k' = k\<lparr>mem := memmove source target (alloc_length entry) m2,
            allocationMap := ((allocationMap k)(target \<mapsto>
                 \<lparr>pointer = target, alloc_length = alloc_length entry,
                  allocToEscapeMap = allocToEscapeMap entry\<rparr>))
                               (pointer entry := None),
            threads := ts, world_stopped := False,
            sched_trace := sched_trace k @ [StopWorld, StartWorld]\<rparr>"
          by simp_all
        then show ?thesis by (rule completed [OF run Some pm ok th True])
      next
        case False
        have "(r, k') = (- 1, k\<lparr>mem := m2, threads := ts, world_stopped := False,
              sched_trace := sched_trace k @ [StopWorld, StartWorld]\<rparr>)"
          using assms move_threads_failed [where p = p and h = h, OF run Some pm ok th False] by simp
        then have "r = - 1" "k' = k\<lparr>mem := m2, threads := ts, world_stopped := False,
              sched_trace := sched_trace k @ [StopWorld, StartWorld]\<rparr>"
          by simp_all
        then show ?thesis by (rule threads_failed [OF run Some pm ok th False])
      qed
    qed
  qed
qed

text \<open>
  Claim C5. On every path of the relocation on which the world was stopped (success,
  allocation not found, escape pass failed, thread pass failed), \<open>startWorld\<close> is
  called exactly once before the call returns and the world is not left stopped. The
  statement is for any escape pass and any thread callback, so that all four paths occur.
\<close>

theorem start_world_exactly_once:
  assumes "\<not> stop_world_fails k"
    and "move_allocation_with patch_escapes thread_func source target k = (r, k')"
  shows "sched_trace k' = sched_trace k @ [StopWorld, StartWorld] \<and>
         count_list (sched_trace k') StartWorld = count_list (sched_trace k) StartWorld + 1 \<and>
         \<not> world_stopped k'"
  using assms(2)
proof (cases rule: move_cases)
  case refused
  with assms(1) show ?thesis by simp
qed simp_all

theorem start_world_exactly_once_witness:
  "\<not> stop_world_fails scenario_state \<and>
   sched_trace (snd (nk_carat_move_allocation 0x1000 0x9000 scenario_state)) =
     [StopWorld, StartWorld] \<and>
   count_list (sched_trace (snd (nk_carat_move_allocation 0x1000 0x9000 scenario_state)))
     StartWorld = 1 \<and>
   \<not> world_stopped (snd (nk_carat_move_allocation 0x1000 0x9000 scenario_state))"
  using start_world_exactly_once
      [where k = scenario_state and patch_escapes = carat_patch_escapes
         and thread_func = handle_thread and source = "0x1000" and target = "0x9000"
         and r = "fst (nk_carat_move_allocation 0x1000 0x9000 scenario_state)"
         and k' = "snd (nk_carat_move_allocation 0x1000 0x9000 scenario_state)"]
  by (simp add: nk_carat_move_allocation_def scenario_state_def)

subsection \<open>The scenario, evaluated\<close>

lemma scenario_found: "allocationMap scenario_state 0x1000 = Some scenario_entry"
  by (simp add: scenario_state_def)

lemma scenario_runs: "\<not> stop_world_fails scenario_state"
  by (simp add: scenario_state_def)

lemma scenario_mem_state: "mem scenario_state = scenario_mem"
  by (simp add: scenario_state_def)

lemma scenario_patched:
  "patch_loop scenario_entry t (allocToEscapeMap scenario_entry) scenario_mem =
   write64 scenario_mem 0x2000 (t + 0x10)"
proof -
  have first: "patch_escape scenario_entry t scenario_mem 0x2000 =
               write64 scenario_mem 0x2000 (t + 0x10)"
    by (simp add: patch_escape_def doesItAlias_def scenario_reads scenario_entry_def word_sle_eq)
  have "slots_apart 0x2000 0x2008" by (simp add: slots_apart_def)
  then have "read64 (write64 scenario_mem 0x2000 (t + 0x10)) 0x2008 = 0x5000"
    by (simp add: read64_write64_apart scenario_reads)
  then have "patch_escape scenario_entry t (write64 scenario_mem 0x2000 (t + 0x10)) 0x2008 =
             write64 scenario_mem 0x2000 (t + 0x10)"
    by (simp add: patch_escape_def doesItAlias_def scenario_entry_def word_sle_eq)
  with first show ?thesis by (simp add: scenario_entry_def)
qed

lemma scenario_moved:
  "nk_carat_move_allocation 0x1000 t scenario_state =
     (0, scenario_state
          \<lparr>mem := memmove 0x1000 t 64 (write64 scenario_mem 0x2000 (t + 0x10)),
           allocationMap :=
             ((allocationMap scenario_state)(t \<mapsto>
                 \<lparr>pointer = t, alloc_length = 64, allocToEscapeMap = [0x2000, 0x2008]\<rparr>))
               (0x1000 := None),
           threads := map (\<lambda>th. fst (handle_thread th
                \<lparr>allocationToMove = 0x1000, allocationTarget = t,
                 move_length = 64, failed = 0\<rparr>)) (threads scenario_state),
           world_stopped := False,
           sched_trace := sched_trace scenario_state @ [StopWorld, StartWorld]\<rparr>)"
  using scenario_patched [of t]
  by (simp add: nk_carat_move_allocation_found [OF scenario_runs scenario_found]
      scenario_mem_state)
     (simp add: scenario_entry_def)

subsection \<open>The byte copy\<close>

text \<open>
  Claim C1. After a successful move the bytes at \<open>[target, target + length)\<close> should
  equal the bytes that were at \<open>[source, source + length)\<close> before. The source calls
  \<^verbatim>\<open>memmove(allocationToMove, allocationTarget, entry->length)\<close>, whose destination is
  the source address of the move: in the scenario the call succeeds, the target bytes
  keep their old value \<open>0\<close> and the allocation's own bytes \<open>0xAB\<close> are overwritten by
  the bytes that were at the target.
\<close>

theorem memmove_arguments_reversed:
  "fst (nk_carat_move_allocation 0x1000 0x9000 scenario_state) = 0 \<and>
   mem scenario_state 0x1000 = 0xAB \<and>
   mem scenario_state 0x9000 = 0 \<and>
   mem (snd (nk_carat_move_allocation 0x1000 0x9000 scenario_state)) 0x9000 = 0 \<and>
   mem (snd (nk_carat_move_allocation 0x1000 0x9000 scenario_state)) 0x1000 = 0"
  by (simp add: scenario_moved scenario_mem_state)
     (simp add: memmove_def scenario_mem_def write64_def)

subsection \<open>Re-keying the directory\<close>

text \<open>
  Claim C4, as stated, at source equal to target: the call succeeds and the directory
  has no entry keyed at the target afterwards.
\<close>

theorem rekey_degenerate_counterexample:
  "fst (nk_carat_move_allocation 0x1000 0x1000 scenario_state) = 0 \<and>
   allocationMap scenario_state 0x1000 = Some scenario_entry \<and>
   allocationMap (snd (nk_carat_move_allocation 0x1000 0x1000 scenario_state)) 0x1000 = None"
  by (simp add: scenario_moved scenario_found)


text \<open>
  Claim C4, amended. After a successful move to a target different from the source, in
  a directory whose key for the entry is the entry's base, the directory has no entry
  keyed at the source and its entry keyed at the target carries the target as base, the
  original length and the original escape list.
\<close>

theorem move_allocation_rekeys:
  assumes "nk_carat_move_allocation source target k = (0, k')"
    and "allocationMap k source = Some entry"
    and "pointer entry = source"
    and "source \<noteq> target"
  shows "allocationMap k' source = None \<and>
         allocationMap k' target =
           Some \<lparr>pointer = target, alloc_length = alloc_length entry,
                 allocToEscapeMap = allocToEscapeMap entry\<rparr>"
  using assms(1) unfolding nk_carat_move_allocation_def
proof (cases rule: move_cases)
  case (completed entry' pr m2 ts state')
  then show ?thesis using assms(2,3,4) by simp
qed simp_all

theorem move_allocation_rekeys_witness:
  "allocationMap scenario_state 0x1000 = Some scenario_entry \<and>
   fst (nk_carat_move_allocation 0x1000 0x9000 scenario_state) = 0 \<and>
   allocationMap (snd (nk_carat_move_allocation 0x1000 0x9000 scenario_state)) 0x1000 = None \<and>
   allocationMap (snd (nk_carat_move_allocation 0x1000 0x9000 scenario_state)) 0x9000 =
     Some \<lparr>pointer = 0x9000, alloc_length = 64, allocToEscapeMap = [0x2000, 0x2008]\<rparr>"
  using move_allocation_rekeys
     [where source = "0x1000" and target = "0x9000" and k = scenario_state
        and entry = scenario_entry
        and k' = "snd (nk_carat_move_allocation 0x1000 0x9000 scenario_state)"]
  by (simp add: scenario_moved scenario_found scenario_entry_def)


text \<open>
  Claim C8. A degenerate move (source equal to target) of an entry with positive length
  and a non-empty escape list should succeed and leave the directory entry of that base
  unchanged in content. In the source \<^verbatim>\<open>carat_update_entry\<close> adds the new entry under
  the target and then removes the key \<^verbatim>\<open>entry->pointer\<close>, which here is the same key:
  the call succeeds and the directory no longer has an entry for the base.
\<close>

theorem degenerate_move_drops_entry:
  "findAllocEntry scenario_state 0x1000 = Some scenario_entry \<and>
   alloc_length scenario_entry = 64 \<and>
   allocToEscapeMap scenario_entry = [0x2000, 0x2008] \<and>
   fst (nk_carat_move_allocation 0x1000 0x1000 scenario_state) = 0 \<and>
   findAllocEntry (snd (nk_carat_move_allocation 0x1000 0x1000 scenario_state)) 0x1000 = None"
  by (simp add: scenario_moved findAllocEntry_def scenario_found)
     (simp add: scenario_entry_def)

text \<open>
  Claim C9. A tracking record keeps its length for its whole life, and a successful
  relocation gives it the target as base: afterwards the re-keyed record has the target
  as base and the original length. In the scenario the record at \<open>0x1000\<close> has length
  64; the move of \<open>0x1000\<close> onto itself succeeds, and afterwards the directory holds no
  record at all, so no record with base \<open>0x1000\<close> and length 64 is left. This is the
  add-then-remove order of \<^verbatim>\<open>carat_update_entry\<close> again.
\<close>

theorem degenerate_move_leaves_no_record:
  "allocationMap scenario_state 0x1000 = Some scenario_entry \<and>
   pointer scenario_entry = 0x1000 \<and>
   alloc_length scenario_entry = 64 \<and>
   fst (nk_carat_move_allocation 0x1000 0x1000 scenario_state) = 0 \<and>
   allocationMap (snd (nk_carat_move_allocation 0x1000 0x1000 scenario_state)) = Map.empty"
  by (simp add: scenario_moved scenario_found)
     (simp add: scenario_state_def scenario_entry_def)

subsection \<open>Failure paths\<close>

text \<open>
  Claim C6. If the thread pass reports failure (the flag of the shared state is set
  after the iteration over all threads) after the escape pass has succeeded, the
  relocation returns failure, the directory is unchanged (it still holds the entry keyed
  at the source), no byte copy has run, and the memory is the one the escape pass left:
  the rewritten escape slots are not rolled back. The thread callback is a parameter,
  since \<^verbatim>\<open>handle_thread\<close> itself never sets the flag.
\<close>

theorem thread_failure_no_rollback:
  assumes "\<not> stop_world_fails k"
    and "allocationMap k source = Some entry"
    and "nk_sched_map_threads thread_func (threads k)
           \<lparr>allocationToMove = source, allocationTarget = target,
            move_length = alloc_length entry, failed = 0\<rparr> = (ts, state')"
    and "failed state' \<noteq> 0"
    and "move_allocation_with carat_patch_escapes thread_func source target k = (r, k')"
  shows "r = - 1 \<and>
         allocationMap k' = allocationMap k \<and>
         mem k' = snd (carat_patch_escapes entry target (mem k)) \<and>
         threads k' = ts \<and>
         \<not> world_stopped k'"
proof -
  have "carat_patch_escapes entry target (mem k) =
          (0, snd (carat_patch_escapes entry target (mem k)))"
    by (simp add: carat_patch_escapes_def)
  from move_threads_failed [where p = carat_patch_escapes and h = thread_func,
      OF assms(1,2) this _ assms(3,4)] assms(5)
  show ?thesis by simp
qed

theorem thread_failure_no_rollback_witness:
  "fst (move_allocation_with carat_patch_escapes failing_thread 0x1000 0x9000 scenario_state)
     = - 1 \<and>
   allocationMap
     (snd (move_allocation_with carat_patch_escapes failing_thread 0x1000 0x9000 scenario_state))
     0x1000 = Some scenario_entry \<and>
   allocationMap
     (snd (move_allocation_with carat_patch_escapes failing_thread 0x1000 0x9000 scenario_state))
     0x9000 = None \<and>
   read64 (mem scenario_state) 0x2000 = 0x1010 \<and>
   read64 (mem
     (snd (move_allocation_with carat_patch_escapes failing_thread 0x1000 0x9000 scenario_state)))
     0x2000 = 0x9010"
proof -
  let ?res = "move_allocation_with carat_patch_escapes failing_thread 0x1000 0x9000
                scenario_state"
  have th: "nk_sched_map_threads failing_thread (threads scenario_state)
              \<lparr>allocationToMove = 0x1000, allocationTarget = 0x9000,
               move_length = alloc_length scenario_entry, failed = 0\<rparr> =
            (threads scenario_state,
             \<lparr>allocationToMove = 0x1000, allocationTarget = 0x9000,
              move_length = alloc_length scenario_entry, failed = 1\<rparr>)"
    by (simp add: scenario_state_def failing_thread_def)
  have "fst ?res = - 1 \<and>
        allocationMap (snd ?res) = allocationMap scenario_state \<and>
        mem (snd ?res) = snd (carat_patch_escapes scenario_entry 0x9000 (mem scenario_state)) \<and>
        threads (snd ?res) = threads scenario_state \<and>
        \<not> world_stopped (snd ?res)"
    by (rule thread_failure_no_rollback
          [where r = "fst ?res" and k' = "snd ?res", OF scenario_runs scenario_found th])
       simp_all
  moreover have "allocationMap scenario_state 0x9000 = None"
    by (simp add: scenario_state_def)
  ultimately show ?thesis
    by (simp add: scenario_found carat_patch_escapes_def scenario_mem_state scenario_patched
        scenario_reads read64_write64_same)
qed

text \<open>
  Claim C7. A move whose source has no directory entry returns failure, leaves the
  directory, the memory (hence every escape slot) and every thread register unchanged,
  and, when the world was stopped, resumes it before returning.
\<close>

theorem move_allocation_not_found:
  assumes "allocationMap k source = None"
    and "nk_carat_move_allocation source target k = (r, k')"
  shows "r = - 1 \<and> allocationMap k' = allocationMap k \<and> mem k' = mem k \<and>
         threads k' = threads k \<and>
         (\<not> stop_world_fails k \<longrightarrow>
            sched_trace k' = sched_trace k @ [StopWorld, StartWorld] \<and> \<not> world_stopped k')"
  using assms(2) unfolding nk_carat_move_allocation_def
  by (cases rule: move_cases) (use assms(1) in simp_all)

theorem move_allocation_not_found_witness:
  "allocationMap scenario_state 0xDEAD = None \<and>
   \<not> stop_world_fails scenario_state \<and>
   fst (nk_carat_move_allocation 0xDEAD 0xBEEF scenario_state) = - 1 \<and>
   allocationMap (snd (nk_carat_move_allocation 0xDEAD 0xBEEF scenario_state)) =
     allocationMap scenario_state \<and>
   mem (snd (nk_carat_move_allocation 0xDEAD 0xBEEF scenario_state)) = mem scenario_state \<and>
   threads (snd (nk_carat_move_allocation 0xDEAD 0xBEEF scenario_state)) =
     threads scenario_state \<and>
   sched_trace (snd (nk_carat_move_allocation 0xDEAD 0xBEEF scenario_state)) =
     [StopWorld, StartWorld] \<and>
   \<not> world_stopped (snd (nk_carat_move_allocation 0xDEAD 0xBEEF scenario_state))"
  using move_allocation_not_found
    [where k = scenario_state and source = "0xDEAD" and target = "0xBEEF"
       and r = "fst (nk_carat_move_allocation 0xDEAD 0xBEEF scenario_state)"
       and k' = "snd (nk_carat_move_allocation 0xDEAD 0xBEEF scenario_state)"]
  by (simp add: scenario_state_def)

text \<open>
  Claim C10. \<^verbatim>\<open>carat_patch_escapes\<close> always returns 0 and \<^verbatim>\<open>handle_thread\<close> never
  changes the shared state, so the failure flag is still 0 after the iteration; hence
  every call in which the world could be stopped and the source has an entry returns
  success: the two failure branches after the lookup are never taken.
\<close>

theorem move_allocation_always_succeeds:
  "fst (carat_patch_escapes entry t m) = 0 \<and>
   snd (handle_thread th st) = st \<and>
   snd (nk_sched_map_threads handle_thread ts st) = st \<and>
   (\<not> stop_world_fails k \<and> allocationMap k source \<noteq> None \<longrightarrow>
      fst (nk_carat_move_allocation source target k) = 0)"
  by (auto simp add: carat_patch_escapes_def handle_thread_def map_threads_handle_thread
      nk_carat_move_allocation_found)

theorem move_allocation_always_succeeds_witness:
  "\<not> stop_world_fails scenario_state \<and> allocationMap scenario_state 0x1000 \<noteq> None \<and>
   fst (nk_carat_move_allocation 0x1000 0x9000 scenario_state) = 0"
  using move_allocation_always_succeeds
    [where k = scenario_state and source = "0x1000" and target = "0x9000"]
  by (simp add: scenario_state_def)

end
